theory Spec2Isabelle
  imports Main "HOL-Library.Word"
begin

section \<open>The asyncio interface of UCXX (python/ucxx/core.py)\<close>

text \<open>
  A shallow embedding of \<^verbatim>\<open>core.py\<close>. Python integers are \<^typ>\<open>int\<close>, bytes are
  8-bit words, dictionaries are maps, and every exception the module raises (also the
  implicit ones: attribute access on \<^verbatim>\<open>None\<close>, subscripting \<^verbatim>\<open>None\<close>, a name that is not
  bound) is a value of the type \<open>error\<close>. What the transport engine, the operating
  system and other coroutines do is an explicit argument of each function; what a
  function asks of the transport is recorded as a list of events, in program order.
  Logging is not modelled: the logger is taken to be at its default level, so the
  blocks guarded by \<^verbatim>\<open>logger.isEnabledFor(logging.DEBUG)\<close> do not run.
\<close>

subsection \<open>Values, errors, events\<close>

type_synonym byte = "8 word"

datatype pyval = PNone | PInt int | PStr string | PBytes "byte list"

datatype error =
    StructError
  | RuntimeError
  | AttributeError
  | TypeError
  | KeyError
  | NameError string
  | UnboundLocalError string
  | ValueError
  | UCXCloseError
  | UCXCanceled
  | UCXError
  | UCXConnectionResetError

datatype event =
    StreamSend "byte list"
  | StreamRecv nat
  | TagSend "byte list" pyval
  | TagSendMulti "byte list list" pyval
  | TagRecv nat pyval
  | Await
  | WorkerProgress
  | UCXEndpointCreate
  | UCXContextCreate
  | UCXWorkerCreate "bool option" bool
  | QueueCreate
  | ThreadStart

text \<open>
  \<^verbatim>\<open>hash64bits\<close> lives in \<^verbatim>\<open>utils.py\<close> and Python's \<^verbatim>\<open>hash\<close> is a builtin: both
  are arguments of the functions that call them, named \<open>hash64bits\<close> and \<open>hash\<close>.
\<close>

type_synonym hash64 = "pyval list \<Rightarrow> int"
type_synonym pyhash = "pyval \<Rightarrow> int"

subsection \<open>\<^verbatim>\<open>struct.pack\<close> and \<^verbatim>\<open>struct.unpack\<close> with the format \<^verbatim>\<open>QQQ\<close>\<close>

text \<open>
  Three unsigned 8-byte integers in native order, taken to be little-endian.
  \<^verbatim>\<open>struct.pack\<close> raises \<^verbatim>\<open>struct.error\<close> for an argument outside \<open>[0, 2^64)\<close>,
  \<^verbatim>\<open>struct.unpack\<close> for a buffer that is not 24 bytes long.
\<close>

fun pack_le :: "nat \<Rightarrow> int \<Rightarrow> byte list" where
  "pack_le 0 x = []"
| "pack_le (Suc k) x = word_of_int (x mod 256) # pack_le k (x div 256)"

fun unpack_le :: "byte list \<Rightarrow> int" where
  "unpack_le [] = 0"
| "unpack_le (b # bs) = uint b + 256 * unpack_le bs"

definition pack_Q :: "int \<Rightarrow> error + byte list" where
  "pack_Q x = (if 0 \<le> x \<and> x < 2 ^ 64 then Inr (pack_le 8 x) else Inl StructError)"

definition struct_pack_QQQ :: "int \<Rightarrow> int \<Rightarrow> int \<Rightarrow> error + byte list" where
  "struct_pack_QQQ a b c =
     (case pack_Q a of Inl e \<Rightarrow> Inl e | Inr ba \<Rightarrow>
      (case pack_Q b of Inl e \<Rightarrow> Inl e | Inr bb \<Rightarrow>
       (case pack_Q c of Inl e \<Rightarrow> Inl e | Inr bc \<Rightarrow> Inr (ba @ bb @ bc))))"

definition struct_unpack_QQQ :: "byte list \<Rightarrow> error + (int \<times> int \<times> int)" where
  "struct_unpack_QQQ bs =
     (if length bs = 24
      then Inr (unpack_le (take 8 bs), unpack_le (take 8 (drop 8 bs)), unpack_le (drop 16 bs))
      else Inl StructError)"

subsection \<open>\<^verbatim>\<open>exchange_peer_info\<close>\<close>

text \<open>
  The transport's side of the two streaming calls: what \<^verbatim>\<open>await req.wait()\<close> raises
  for the send (if anything), and for the receive either what it raises or the content
  of \<^verbatim>\<open>peer_info\<close> once the request has completed.
\<close>

record stream_env =
  send_wait :: "error option"
  recv_wait :: "error + byte list"

definition check_peer_info :: "hash64 \<Rightarrow> byte list \<Rightarrow> error + (string \<rightharpoonup> int)" where
  "check_peer_info hash64bits peer_info =
     (case struct_unpack_QQQ peer_info of
        Inl e \<Rightarrow> Inl e
      | Inr (m, c, k) \<Rightarrow>
          (let ret = [''msg_tag'' \<mapsto> m, ''ctrl_tag'' \<mapsto> c, ''checksum'' \<mapsto> k];
               expected_checksum = hash64bits [PInt m, PInt c]
           in if expected_checksum \<noteq> k then Inl RuntimeError else Inr ret))"

definition exchange_peer_info ::
  "hash64 \<Rightarrow> stream_env \<Rightarrow> int \<Rightarrow> int \<Rightarrow> bool \<Rightarrow> event list \<times> (error + (string \<rightharpoonup> int))" where
  "exchange_peer_info hash64bits env msg_tag ctrl_tag listener =
     (case struct_pack_QQQ msg_tag ctrl_tag (hash64bits [PInt msg_tag, PInt ctrl_tag]) of
        Inl e \<Rightarrow> ([], Inl e)
      | Inr my_info \<Rightarrow>
          (if listener then
             (case send_wait env of
                Some e \<Rightarrow> ([StreamSend my_info, Await], Inl e)
              | None \<Rightarrow>
                 (case recv_wait env of
                    Inl e \<Rightarrow>
                      ([StreamSend my_info, Await, StreamRecv (length my_info), Await], Inl e)
                  | Inr peer_info \<Rightarrow>
                      ([StreamSend my_info, Await, StreamRecv (length my_info), Await],
                       check_peer_info hash64bits peer_info)))
           else
             (case recv_wait env of
                Inl e \<Rightarrow> ([StreamRecv (length my_info), Await], Inl e)
              | Inr peer_info \<Rightarrow>
                 (case send_wait env of
                    Some e \<Rightarrow>
                      ([StreamRecv (length my_info), Await, StreamSend my_info, Await], Inl e)
                  | None \<Rightarrow>
                      ([StreamRecv (length my_info), Await, StreamSend my_info, Await],
                       check_peer_info hash64bits peer_info)))))"

subsection \<open>The handshake on both sides\<close>

record ucx_endpoint =
  handle :: int

type_synonym ctx_ref = nat

record endpoint =
  ep_ep :: "ucx_endpoint option"
  ep_ctx :: "ctx_ref option"
  ep_send_count :: int
  ep_recv_count :: int
  ep_finished_recv_count :: int
  ep_shutting_down_peer :: bool
  ep_close_after_n_recv :: "int option"
  ep_tags :: "(string \<rightharpoonup> int) option"

text \<open>\<^verbatim>\<open>Endpoint.__init__\<close>; its two \<^verbatim>\<open>isinstance\<close> checks hold by typing.\<close>

definition Endpoint :: "ucx_endpoint \<Rightarrow> ctx_ref \<Rightarrow> (string \<rightharpoonup> int) option \<Rightarrow> endpoint" where
  "Endpoint endpoint ctx tags =
     \<lparr>ep_ep = Some endpoint, ep_ctx = Some ctx, ep_send_count = 0, ep_recv_count = 0,
      ep_finished_recv_count = 0, ep_shutting_down_peer = False,
      ep_close_after_n_recv = None, ep_tags = tags\<rparr>"

text \<open>
  \<^verbatim>\<open>d[k]\<close> on something that is a dictionary or \<^verbatim>\<open>None\<close>: \<^verbatim>\<open>TypeError\<close> on \<^verbatim>\<open>None\<close>,
  \<^verbatim>\<open>KeyError\<close> on a missing key.
\<close>

definition getitem :: "(string \<rightharpoonup> int) option \<Rightarrow> string \<Rightarrow> error + int" where
  "getitem d k =
     (case d of
        None \<Rightarrow> Inl TypeError
      | Some m \<Rightarrow> (case m k of None \<Rightarrow> Inl KeyError | Some v \<Rightarrow> Inr v))"

text \<open>
  The dictionary literal \<^verbatim>\<open>tags = {...}\<close> that \<^verbatim>\<open>_listener_handler_coroutine\<close> and
  \<^verbatim>\<open>create_endpoint\<close> both build from \<^verbatim>\<open>peer_info\<close> and the local tags.
\<close>

definition handshake_tags ::
  "(string \<rightharpoonup> int) \<Rightarrow> int \<Rightarrow> int \<Rightarrow> error + (string \<rightharpoonup> int)" where
  "handshake_tags peer_info msg_tag ctrl_tag =
     (case getitem (Some peer_info) ''msg_tag'' of
        Inl e \<Rightarrow> Inl e
      | Inr peer_msg \<Rightarrow>
         (case getitem (Some peer_info) ''ctrl_tag'' of
            Inl e \<Rightarrow> Inl e
          | Inr peer_ctrl \<Rightarrow>
              Inr [''msg_send'' \<mapsto> peer_msg, ''msg_recv'' \<mapsto> msg_tag,
                   ''ctrl_send'' \<mapsto> peer_ctrl, ''ctrl_recv'' \<mapsto> ctrl_tag]))"

text \<open>
  \<^verbatim>\<open>_listener_handler_coroutine\<close> up to the call of the user's callback: the result is
  the endpoint that \<^verbatim>\<open>func\<close> receives. \<open>seed\<close> is what \<^verbatim>\<open>os.urandom(16)\<close> returned.
\<close>

definition listener_handler_coroutine ::
  "hash64 \<Rightarrow> stream_env \<Rightarrow> byte list \<Rightarrow> ucx_endpoint \<Rightarrow> ctx_ref \<Rightarrow> event list \<times> (error + endpoint)" where
  "listener_handler_coroutine hash64bits env seed conn_request ctx =
     (let endpoint = conn_request;
          msg_tag = hash64bits [PStr ''msg_tag'', PBytes seed, PInt (handle endpoint)];
          ctrl_tag = hash64bits [PStr ''ctrl_tag'', PBytes seed, PInt (handle endpoint)]
      in case exchange_peer_info hash64bits env msg_tag ctrl_tag True of
           (evs, Inl e) \<Rightarrow> (evs, Inl e)
         | (evs, Inr peer_info) \<Rightarrow>
             (case handshake_tags peer_info msg_tag ctrl_tag of
                Inl e \<Rightarrow> (evs, Inl e)
              | Inr tags \<Rightarrow> (evs, Inr (Endpoint endpoint ctx (Some tags)))))"

subsection \<open>\<^verbatim>\<open>ApplicationContext\<close>\<close>

type_synonym loop_ref = nat

text \<open>
  \<^verbatim>\<open>ThreadMode(worker, loop, polling_mode)\<close> and \<^verbatim>\<open>PollingMode(worker, loop)\<close> of
  \<^verbatim>\<open>continuous_ucx_progress.py\<close>, as the arguments they are built from.
\<close>

datatype progress_task = ThreadMode loop_ref bool | PollingMode loop_ref

fun task_event_loop :: "progress_task \<Rightarrow> loop_ref" where
  "task_event_loop (ThreadMode l p) = l"
| "task_event_loop (PollingMode l) = l"

datatype thread = Thread

text \<open>The worker, as the arguments \<^verbatim>\<open>UCXWorker(...)\<close> was constructed with.\<close>

record worker =
  worker_enable_delayed_submission :: "bool option"
  worker_enable_python_future :: bool

record application_context =
  progress_tasks :: "progress_task list"
  notifier_thread_q :: "string list option"
  notifier_thread :: "thread option"
  ctx_progress_mode :: string
  config :: "string \<rightharpoonup> string"
  ctx_worker :: worker

definition valid_progress_modes :: "string list" where
  "valid_progress_modes = [''polling'', ''thread'', ''thread-polling'']"

definition check_progress_mode :: "(string \<rightharpoonup> string) \<Rightarrow> pyval \<Rightarrow> error + string" where
  "check_progress_mode environ progress_mode =
     (let progress_mode =
            (if progress_mode = PNone then
               (case environ ''UCXPY_PROGRESS_MODE'' of
                  Some v \<Rightarrow> PStr v
                | None \<Rightarrow> PStr ''thread'')
             else progress_mode)
      in case progress_mode of
           PStr m \<Rightarrow> if m \<in> set valid_progress_modes then Inr m else Inl ValueError
         | _ \<Rightarrow> Inl ValueError)"

text \<open>
  \<^verbatim>\<open>_check_enable_delayed_submission\<close> assigns to its parameter and ends: the first
  definition is the value of that local variable at the end of the body, the second is
  what the call returns, a function body without \<^verbatim>\<open>return\<close> giving \<^verbatim>\<open>None\<close>.
\<close>

definition check_enable_delayed_submission_local ::
  "(string \<rightharpoonup> string) \<Rightarrow> bool option \<Rightarrow> bool option" where
  "check_enable_delayed_submission_local environ enable_delayed_submission =
     (case enable_delayed_submission of
        None \<Rightarrow>
          (case environ ''UCXPY_ENABLE_DELAYED_SUBMISSION'' of
             Some v \<Rightarrow> Some (if v = ''0'' then False else True)
           | None \<Rightarrow> Some True)
      | Some b \<Rightarrow> Some b)"

definition check_enable_delayed_submission ::
  "(string \<rightharpoonup> string) \<Rightarrow> bool option \<Rightarrow> bool option" where
  "check_enable_delayed_submission environ enable_delayed_submission =
     (let enable_delayed_submission =
            check_enable_delayed_submission_local environ enable_delayed_submission
      in None)"

text \<open>
  \<^verbatim>\<open>_check_enable_python_future\<close> returns \<^verbatim>\<open>explicit_enable_python_future\<close>. Its
  branch for a progress mode that does not start with \<^verbatim>\<open>thread\<close> logs a warning and
  assigns to the parameter, which is not read again, so the branch leaves no trace here.
\<close>

definition check_enable_python_future ::
  "(string \<rightharpoonup> string) \<Rightarrow> bool option \<Rightarrow> string \<Rightarrow> bool" where
  "check_enable_python_future environ enable_python_future progress_mode =
     (let explicit_enable_python_future =
            (case enable_python_future of
               None \<Rightarrow>
                 (case environ ''UCXPY_ENABLE_PYTHON_FUTURE'' of
                    Some v \<Rightarrow> v \<noteq> ''0''
                  | None \<Rightarrow> False)
             | Some b \<Rightarrow> b)
      in explicit_enable_python_future)"

text \<open>
  The names bound at the top level of \<^verbatim>\<open>core.py\<close>: its imports, \<^verbatim>\<open>logger\<close>,
  \<^verbatim>\<open>_ctx\<close>, its functions and its classes. (The attributes the interpreter gives
  every module, such as \<^verbatim>\<open>__name__\<close>, are left out.)
\<close>

definition module_globals :: "string list" where
  "module_globals =
     [''array'', ''asyncio'', ''gc'', ''logging'', ''os'', ''struct'', ''threading'',
      ''weakref'', ''partial'', ''close_fd'', ''Queue'', ''ucx_api'', ''Array'',
      ''UCXBaseException'', ''UCXCanceled'', ''UCXCloseError'', ''UCXConnectionResetError'',
      ''UCXError'', ''PollingMode'', ''ThreadMode'', ''hash64bits'', ''logger'', ''_ctx'',
      ''_get_ctx'', ''exchange_peer_info'', ''_listener_handler_coroutine'',
      ''_listener_handler'', ''_run_request_notifier'', ''_notifier_coroutine'',
      ''_notifierThread'', ''ApplicationContext'', ''Listener'', ''Endpoint'', ''init'',
      ''reset'', ''stop_notifier_thread'', ''get_ucx_version'', ''progress'', ''get_config'',
      ''create_listener'', ''create_endpoint'', ''create_endpoint_from_worker_address'',
      ''continuous_ucx_progress'', ''get_ucp_worker'']"

text \<open>
  Reading a name inside a function: its local variables first, then the module's
  globals, then the builtins (an argument, the interpreter's).
\<close>

definition name_is_bound :: "string list \<Rightarrow> string list \<Rightarrow> string \<Rightarrow> bool" where
  "name_is_bound locals builtins name =
     (name \<in> set locals \<or> name \<in> set module_globals \<or> name \<in> set builtins)"

text \<open>
  \<^verbatim>\<open>start_notifier_thread\<close>. Its only local name is \<^verbatim>\<open>self\<close>; the tuple \<^verbatim>\<open>args\<close> of
  the thread reads the name \<^verbatim>\<open>loop\<close>. \<open>is_python_future_enabled\<close> is the worker's
  method of that name.
\<close>

definition start_notifier_thread ::
  "string list \<Rightarrow> (worker \<Rightarrow> bool) \<Rightarrow> application_context \<Rightarrow>
   application_context \<times> event list \<times> (error + unit)" where
  "start_notifier_thread builtins is_python_future_enabled self =
     (if is_python_future_enabled (ctx_worker self) then
        (let self = self\<lparr>notifier_thread_q := Some []\<rparr>
         in if name_is_bound [''self''] builtins ''loop''
            then (self\<lparr>notifier_thread := Some Thread\<rparr>, [QueueCreate, ThreadStart], Inr ())
            else (self, [QueueCreate], Inl (NameError ''loop'')))
      else (self, [], Inr ()))"

text \<open>
  Modelled from the spec: \<^verbatim>\<open>loop in self.progress_tasks\<close> compares the loop with objects
  of the classes \<^verbatim>\<open>ThreadMode\<close> and \<^verbatim>\<open>PollingMode\<close>, whose equality is declared in
  \<^verbatim>\<open>continuous_ucx_progress.py\<close>. The spec has the bindings "keyed by scheduler
  instance" and a binding "skipped if that scheduler already has one registered": a
  task equals a loop when the loop is the task's own.
\<close>

definition loop_in_progress_tasks :: "loop_ref \<Rightarrow> progress_task list \<Rightarrow> bool" where
  "loop_in_progress_tasks loop tasks = (loop \<in> set (map task_event_loop tasks))"

text \<open>\<open>current_loop\<close> is what \<^verbatim>\<open>asyncio.get_event_loop()\<close> returns.\<close>

definition continuous_ucx_progress ::
  "loop_ref \<Rightarrow> application_context \<Rightarrow> loop_ref option \<Rightarrow> error + application_context" where
  "continuous_ucx_progress current_loop self event_loop =
     (let loop = (case event_loop of Some l \<Rightarrow> l | None \<Rightarrow> current_loop)
      in if loop_in_progress_tasks loop (progress_tasks self) then Inr self
         else if ctx_progress_mode self = ''thread'' then
           Inr (self\<lparr>progress_tasks := progress_tasks self @ [ThreadMode loop False]\<rparr>)
         else if ctx_progress_mode self = ''thread-polling'' then
           Inr (self\<lparr>progress_tasks := progress_tasks self @ [ThreadMode loop True]\<rparr>)
         else if ctx_progress_mode self = ''polling'' then
           Inr (self\<lparr>progress_tasks := progress_tasks self @ [PollingMode loop]\<rparr>)
         else Inl (UnboundLocalError ''task''))"

text \<open>
  \<^verbatim>\<open>ApplicationContext.__init__\<close>. \<open>environ\<close> is \<^verbatim>\<open>os.environ\<close>. The constructors of
  \<^verbatim>\<open>UCXContext\<close> and \<^verbatim>\<open>UCXWorker\<close> are the transport's and are taken to succeed; the
  event \<open>UCXWorkerCreate\<close> carries the two keyword arguments of the latter.
\<close>

definition ApplicationContext_init ::
  "string list \<Rightarrow> (worker \<Rightarrow> bool) \<Rightarrow> (string \<rightharpoonup> string) \<Rightarrow> loop_ref \<Rightarrow>
   (string \<rightharpoonup> string) \<Rightarrow> pyval \<Rightarrow> bool option \<Rightarrow> bool option \<Rightarrow>
   event list \<times> (error + application_context)" where
  "ApplicationContext_init builtins is_python_future_enabled environ current_loop
       config_dict progress_mode enable_delayed_submission enable_python_future =
     (case check_progress_mode environ progress_mode of
        Inl e \<Rightarrow> ([], Inl e)
      | Inr mode \<Rightarrow>
         (let enable_delayed_submission =
                check_enable_delayed_submission environ enable_delayed_submission;
              enable_python_future =
                check_enable_python_future environ enable_python_future mode;
              self = \<lparr>progress_tasks = [], notifier_thread_q = None, notifier_thread = None,
                      ctx_progress_mode = mode, config = config_dict,
                      ctx_worker =
                        \<lparr>worker_enable_delayed_submission = enable_delayed_submission,
                         worker_enable_python_future = enable_python_future\<rparr>\<rparr>;
              evs = [UCXContextCreate,
                     UCXWorkerCreate enable_delayed_submission enable_python_future]
          in case start_notifier_thread builtins is_python_future_enabled self of
               (self, evs', Inl e) \<Rightarrow> (evs @ evs', Inl e)
             | (self, evs', Inr u) \<Rightarrow>
                 (case continuous_ucx_progress current_loop self None of
                    Inl e \<Rightarrow> (evs @ evs', Inl e)
                  | Inr self \<Rightarrow> (evs @ evs', Inr self))))"

text \<open>
  \<^verbatim>\<open>ApplicationContext.create_endpoint\<close>. \<open>ucx_ep\<close> is the transport endpoint that
  \<^verbatim>\<open>UCXEndpoint.create\<close> returns, \<open>self_ref\<close> the reference to the context that the
  new endpoint keeps.
\<close>

definition create_endpoint ::
  "hash64 \<Rightarrow> loop_ref \<Rightarrow> stream_env \<Rightarrow> byte list \<Rightarrow> ucx_endpoint \<Rightarrow> ctx_ref \<Rightarrow>
   application_context \<Rightarrow> application_context \<times> event list \<times> (error + endpoint)" where
  "create_endpoint hash64bits current_loop env seed ucx_ep self_ref self =
     (case continuous_ucx_progress current_loop self None of
        Inl e \<Rightarrow> (self, [], Inl e)
      | Inr self \<Rightarrow>
         (let msg_tag = hash64bits [PStr ''msg_tag'', PBytes seed, PInt (handle ucx_ep)];
              ctrl_tag = hash64bits [PStr ''ctrl_tag'', PBytes seed, PInt (handle ucx_ep)]
          in case exchange_peer_info hash64bits env msg_tag ctrl_tag False of
               (evs, Inl e) \<Rightarrow> (self, [UCXEndpointCreate, WorkerProgress] @ evs, Inl e)
             | (evs, Inr peer_info) \<Rightarrow>
                 (case handshake_tags peer_info msg_tag ctrl_tag of
                    Inl e \<Rightarrow> (self, [UCXEndpointCreate, WorkerProgress] @ evs, Inl e)
                  | Inr tags \<Rightarrow>
                      (self, [UCXEndpointCreate, WorkerProgress] @ evs,
                       Inr (Endpoint ucx_ep self_ref (Some tags))))))"

subsection \<open>\<^verbatim>\<open>Endpoint\<close>\<close>

text \<open>
  What the transport and the other coroutines do around one call of \<^verbatim>\<open>send\<close>,
  \<^verbatim>\<open>send_multi\<close> or \<^verbatim>\<open>recv\<close>:
  what \<^verbatim>\<open>self._ep.raise_on_error()\<close> raises (if anything), what \<^verbatim>\<open>self._ep.is_alive()\<close>
  and \<^verbatim>\<open>worker.tag_probe(tag)\<close> answer, how the posted request resolves (what waiting
  for it raises, or the value it returns), and whether another coroutine calls
  \<^verbatim>\<open>abort()\<close> on this endpoint while the caller is suspended in \<^verbatim>\<open>await\<close>.
\<close>

record op_env =
  raise_on_error :: "error option"
  is_alive :: bool
  tag_probe :: bool
  wait :: "error + pyval"
  abort_while_waiting :: bool

definition closed :: "endpoint \<Rightarrow> bool \<Rightarrow> bool" where
  "closed self alive = (ep_ep self = None \<or> \<not> alive)"

definition abort :: "endpoint \<Rightarrow> endpoint" where
  "abort self = self\<lparr>ep_ep := None, ep_ctx := None\<rparr>"

text \<open>
  The two statements \<^verbatim>\<open>self._ep.raise_on_error()\<close> and
  \<^verbatim>\<open>if self.closed(): raise UCXCloseError("Endpoint closed")\<close>, in this order; the result
  is what they raise.
\<close>

definition raise_if_closed :: "op_env \<Rightarrow> endpoint \<Rightarrow> error option" where
  "raise_if_closed env self =
     (case ep_ep self of
        None \<Rightarrow> Some AttributeError
      | Some u \<Rightarrow>
         (case raise_on_error env of
            Some e \<Rightarrow> Some e
          | None \<Rightarrow> if closed self (is_alive env) then Some UCXCloseError else None))"

text \<open>
  The tag that goes to the transport: \<^verbatim>\<open>if tag is None: ... elif not force_tag: ...\<close>,
  with \<open>key\<close> being \<^verbatim>\<open>"msg_send"\<close> or \<^verbatim>\<open>"msg_recv"\<close>.
\<close>

definition effective_tag ::
  "hash64 \<Rightarrow> pyhash \<Rightarrow> (string \<rightharpoonup> int) option \<Rightarrow> string \<Rightarrow> pyval \<Rightarrow> bool \<Rightarrow> error + pyval" where
  "effective_tag hash64bits hash tags key tag force_tag =
     (if tag = PNone then
        (case getitem tags key of Inl e \<Rightarrow> Inl e | Inr t \<Rightarrow> Inr (PInt t))
      else if \<not> force_tag then
        (case getitem tags key of
           Inl e \<Rightarrow> Inl e
         | Inr t \<Rightarrow> Inr (PInt (hash64bits [PInt t, PInt (hash tag)])))
      else Inr tag)"

text \<open>
  The \<^verbatim>\<open>try\<close> statement that ends \<^verbatim>\<open>send\<close> and \<^verbatim>\<open>send_multi\<close>: the request is posted
  (the events \<open>evs\<close>) and awaited; \<^verbatim>\<open>UCXCanceled\<close> is caught, raised again when
  \<^verbatim>\<open>self._ep is None\<close>, and otherwise the function falls off its end and returns
  \<^verbatim>\<open>None\<close>.
\<close>

definition await_send ::
  "op_env \<Rightarrow> endpoint \<Rightarrow> event list \<Rightarrow> endpoint \<times> event list \<times> (error + pyval)" where
  "await_send env self evs =
     (let self = (if abort_while_waiting env then abort self else self)
      in case wait env of
           Inr v \<Rightarrow> (self, evs, Inr v)
         | Inl e \<Rightarrow>
             if e = UCXCanceled then
               (if ep_ep self = None then (self, evs, Inl e) else (self, evs, Inr PNone))
             else (self, evs, Inl e))"

definition send ::
  "hash64 \<Rightarrow> pyhash \<Rightarrow> op_env \<Rightarrow> endpoint \<Rightarrow> byte list \<Rightarrow> pyval \<Rightarrow> bool \<Rightarrow>
   endpoint \<times> event list \<times> (error + pyval)" where
  "send hash64bits hash env self buffer tag force_tag =
     (case raise_if_closed env self of
        Some e \<Rightarrow> (self, [], Inl e)
      | None \<Rightarrow>
         (case effective_tag hash64bits hash (ep_tags self) ''msg_send'' tag force_tag of
            Inl e \<Rightarrow> (self, [], Inl e)
          | Inr tag \<Rightarrow>
              await_send env (self\<lparr>ep_send_count := ep_send_count self + 1\<rparr>)
                [TagSend buffer tag, Await]))"

definition send_multi ::
  "hash64 \<Rightarrow> pyhash \<Rightarrow> op_env \<Rightarrow> endpoint \<Rightarrow> byte list list \<Rightarrow> pyval \<Rightarrow> bool \<Rightarrow>
   endpoint \<times> event list \<times> (error + pyval)" where
  "send_multi hash64bits hash env self buffers tag force_tag =
     (case raise_if_closed env self of
        Some e \<Rightarrow> (self, [], Inl e)
      | None \<Rightarrow>
         (case effective_tag hash64bits hash (ep_tags self) ''msg_send'' tag force_tag of
            Inl e \<Rightarrow> (self, [], Inl e)
          | Inr tag \<Rightarrow>
              await_send env (self\<lparr>ep_send_count := ep_send_count self + 1\<rparr>)
                [TagSendMulti buffers tag, Await]))"

definition recv ::
  "hash64 \<Rightarrow> pyhash \<Rightarrow> op_env \<Rightarrow> endpoint \<Rightarrow> byte list \<Rightarrow> pyval \<Rightarrow> bool \<Rightarrow>
   endpoint \<times> event list \<times> (error + pyval)" where
  "recv hash64bits hash env self buffer tag force_tag =
     (case effective_tag hash64bits hash (ep_tags self) ''msg_recv'' tag force_tag of
        Inl e \<Rightarrow> (self, [], Inl e)
      | Inr tag \<Rightarrow>
         (case ep_ctx self of
            None \<Rightarrow> (self, [], Inl AttributeError)
          | Some c \<Rightarrow>
             (case (if \<not> tag_probe env then raise_if_closed env self else None) of
                Some e \<Rightarrow> (self, [], Inl e)
              | None \<Rightarrow>
                 (let self = self\<lparr>ep_recv_count := ep_recv_count self + 1\<rparr>
                  in case ep_ep self of
                       None \<Rightarrow> (self, [], Inl AttributeError)
                     | Some u \<Rightarrow>
                        (let evs = [TagRecv (length buffer) tag, Await];
                             self = (if abort_while_waiting env then abort self else self)
                         in case wait env of
                              Inl e \<Rightarrow> (self, evs, Inl e)
                            | Inr ret \<Rightarrow>
                               (let self = self\<lparr>ep_finished_recv_count :=
                                                  ep_finished_recv_count self + 1\<rparr>
                                in case ep_close_after_n_recv self of
                                     None \<Rightarrow> (self, evs, Inr ret)
                                   | Some n \<Rightarrow>
                                       if ep_finished_recv_count self \<ge> n
                                       then (abort self, evs, Inr ret)
                                       else (self, evs, Inr ret)))))))"

definition close_after_n_recv :: "endpoint \<Rightarrow> int \<Rightarrow> bool \<Rightarrow> error + endpoint" where
  "close_after_n_recv self n count_from_ep_creation =
     (let n = (if \<not> count_from_ep_creation then n + ep_finished_recv_count self else n)
      in case ep_close_after_n_recv self of
           Some a \<Rightarrow> Inl UCXError
         | None \<Rightarrow>
             if n = ep_finished_recv_count self then Inr (abort self)
             else if n > ep_finished_recv_count self then
               Inr (self\<lparr>ep_close_after_n_recv := Some n\<rparr>)
             else Inl UCXError)"

subsection \<open>Orders of the two handshake transfers\<close>

text \<open>
  The two orders the handshake can have, as shapes of the list of events: one transfer
  is posted and awaited, then the other is posted and awaited.
\<close>

definition send_then_recv :: "event list \<Rightarrow> bool" where
  "send_then_recv evs =
     (case evs of
        [StreamSend bs, Await, StreamRecv n, Await] \<Rightarrow> True
      | _ \<Rightarrow> False)"

definition recv_then_send :: "event list \<Rightarrow> bool" where
  "recv_then_send evs =
     (case evs of
        [StreamRecv n, Await, StreamSend bs, Await] \<Rightarrow> True
      | _ \<Rightarrow> False)"

subsection \<open>Two peers wired to each other, and a hash to run the model with\<close>

text \<open>The bytes a coroutine has handed to \<^verbatim>\<open>stream_send\<close>, read off its events.\<close>

definition stream_sent :: "event list \<Rightarrow> byte list" where
  "stream_sent evs = concat (map (\<lambda>e. case e of StreamSend bs \<Rightarrow> bs | _ \<Rightarrow> []) evs)"

text \<open>
  A stand-in for \<^verbatim>\<open>hash64bits\<close> with values below \<open>2^64\<close>, and the 24 bytes of a
  handshake message whose three fields are below 256; both serve to run the model on
  concrete inputs.
\<close>

definition example_hash64bits :: hash64 where
  "example_hash64bits args =
     (case args of
        [PStr s, PBytes b, PInt h] \<Rightarrow> (int (length s) + 10 * h) mod 2 ^ 64
      | [PInt a, PInt b] \<Rightarrow> (a + 2 * b + 1) mod 2 ^ 64
      | _ \<Rightarrow> 0)"

definition example_info :: "int \<Rightarrow> int \<Rightarrow> int \<Rightarrow> byte list" where
  "example_info m c k =
     [word_of_int m, 0, 0, 0, 0, 0, 0, 0, word_of_int c, 0, 0, 0, 0, 0, 0, 0,
      word_of_int k, 0, 0, 0, 0, 0, 0, 0]"

subsection \<open>Notions the statements use, and concrete inputs\<close>

text \<open>
  The absolute threshold that \<^verbatim>\<open>close_after_n_recv\<close> computes from its argument, and the
  progress bindings a context holds for one event loop.
\<close>

definition absolute_n :: "endpoint \<Rightarrow> int \<Rightarrow> bool \<Rightarrow> int" where
  "absolute_n self n count_from_ep_creation =
     (if count_from_ep_creation then n else n + ep_finished_recv_count self)"

definition bindings_for :: "loop_ref \<Rightarrow> application_context \<Rightarrow> progress_task list" where
  "bindings_for loop self = filter (\<lambda>t. task_event_loop t = loop) (progress_tasks self)"

text \<open>
  Concrete inputs: a stand-in for Python's \<^verbatim>\<open>hash\<close>, the endpoint an acceptor gets from
  a handshake in which the peer announced the tags 57 and 58, the endpoint of that peer,
  a context in thread mode, some builtin names and an environment.
\<close>

definition example_hash :: pyhash where
  "example_hash v = (case v of PInt n \<Rightarrow> n | PStr s \<Rightarrow> int (length s) | PBytes b \<Rightarrow> int (length b) | PNone \<Rightarrow> 0)"

definition example_endpoint :: endpoint where
  "example_endpoint =
     Endpoint \<lparr>handle = 3\<rparr> 0
       (Some [''msg_send'' \<mapsto> 57, ''msg_recv'' \<mapsto> 37, ''ctrl_send'' \<mapsto> 58, ''ctrl_recv'' \<mapsto> 38])"

definition example_peer_endpoint :: endpoint where
  "example_peer_endpoint =
     Endpoint \<lparr>handle = 5\<rparr> 0
       (Some [''msg_send'' \<mapsto> 37, ''msg_recv'' \<mapsto> 57, ''ctrl_send'' \<mapsto> 38, ''ctrl_recv'' \<mapsto> 58])"

definition example_context :: application_context where
  "example_context =
     \<lparr>progress_tasks = [], notifier_thread_q = None, notifier_thread = None,
      ctx_progress_mode = ''thread'', config = Map.empty,
      ctx_worker = \<lparr>worker_enable_delayed_submission = None,
                    worker_enable_python_future = True\<rparr>\<rparr>"

definition example_builtins :: "string list" where
  "example_builtins = [''len'', ''print'', ''hash'', ''hex'', ''isinstance'', ''bytearray'']"

definition example_environ :: "string \<rightharpoonup> string" where
  "example_environ = [''UCXPY_ENABLE_DELAYED_SUBMISSION'' \<mapsto> ''1'']"

subsection \<open>Packing and unpacking\<close>

lemma length_pack_le: "length (pack_le k x) = k"
  by (induction k arbitrary: x) simp_all

lemma unpack_pack_le: "0 \<le> x \<Longrightarrow> x < 256 ^ k \<Longrightarrow> unpack_le (pack_le k x) = x"
proof (induction k arbitrary: x)
  case 0
  then show ?case by simp
next
  case (Suc k)
  have lo: "0 \<le> x div 256" using Suc.prems(1) by simp
  have hi: "x div 256 < 256 ^ k" using Suc.prems by (simp add: div_less_iff_less_mult)
  have b: "uint (word_of_int (x mod 256) :: byte) = x mod 256"
    by (simp add: uint_word_of_int take_bit_eq_mod)
  show ?case using Suc.IH [OF lo hi] b by simp
qed

lemma unpack_pack_Q: "0 \<le> x \<Longrightarrow> x < 2 ^ 64 \<Longrightarrow> unpack_le (pack_le 8 x) = x"
  using unpack_pack_le [of x 8] by simp

lemma struct_pack_QQQ_Inr:
  "struct_pack_QQQ a b c = Inr bs \<Longrightarrow>
     0 \<le> a \<and> a < 2 ^ 64 \<and> 0 \<le> b \<and> b < 2 ^ 64 \<and> 0 \<le> c \<and> c < 2 ^ 64 \<and>
     bs = pack_le 8 a @ pack_le 8 b @ pack_le 8 c"
  by (auto simp: struct_pack_QQQ_def pack_Q_def split: if_splits sum.splits)

lemma struct_unpack_pack_QQQ:
  assumes "struct_pack_QQQ a b c = Inr bs"
  shows "struct_unpack_QQQ bs = Inr (a, b, c)"
proof -
  from struct_pack_QQQ_Inr [OF assms]
  have r: "0 \<le> a" "a < 2 ^ 64" "0 \<le> b" "b < 2 ^ 64" "0 \<le> c" "c < 2 ^ 64"
    and bs: "bs = pack_le 8 a @ pack_le 8 b @ pack_le 8 c" by simp_all
  show ?thesis
    using r by (simp add: struct_unpack_QQQ_def bs length_pack_le unpack_pack_Q)
qed

lemma struct_unpack_QQQ_24:
  "length bs = 24 \<Longrightarrow> \<exists>m c k. struct_unpack_QQQ bs = Inr (m, c, k)"
  by (simp add: struct_unpack_QQQ_def)

lemma pack_example: "struct_pack_QQQ 37 38 114 = Inr (example_info 37 38 114)"
  by (simp add: struct_pack_QQQ_def pack_Q_def eval_nat_numeral example_info_def)

lemma pack_example_hash:
  "struct_pack_QQQ 37 38 (example_hash64bits [PInt 37, PInt 38]) = Inr (example_info 37 38 114)"
  by (simp add: example_hash64bits_def pack_example)

lemma unpack_example: "struct_unpack_QQQ (example_info 57 58 174) = Inr (57, 58, 174)"
  by (simp add: struct_unpack_QQQ_def example_info_def)

lemma unpack_example_bad: "struct_unpack_QQQ (example_info 57 58 175) = Inr (57, 58, 175)"
  by (simp add: struct_unpack_QQQ_def example_info_def)

lemma length_example_info: "length (example_info m c k) = 24"
  by (simp add: example_info_def)

subsection \<open>The handshake: order of the transfers and the checksum\<close>

lemma exchange_peer_info_result:
  assumes "struct_pack_QQQ msg_tag ctrl_tag (hash64bits [PInt msg_tag, PInt ctrl_tag]) = Inr my_info"
    and "send_wait env = None" and "recv_wait env = Inr peer_info"
  shows "exchange_peer_info hash64bits env msg_tag ctrl_tag listener =
           (if listener then [StreamSend my_info, Await, StreamRecv (length my_info), Await]
            else [StreamRecv (length my_info), Await, StreamSend my_info, Await],
            check_peer_info hash64bits peer_info)"
  using assms by (simp add: exchange_peer_info_def)

lemma exchange_example:
  "exchange_peer_info example_hash64bits
      \<lparr>send_wait = None, recv_wait = Inr (example_info 57 58 174)\<rparr> 37 38 listener =
     (if listener then [StreamSend (example_info 37 38 114), Await, StreamRecv 24, Await]
      else [StreamRecv 24, Await, StreamSend (example_info 37 38 114), Await],
      Inr [''msg_tag'' \<mapsto> 57, ''ctrl_tag'' \<mapsto> 58, ''checksum'' \<mapsto> 174])"
  by (simp add: exchange_peer_info_result [where hash64bits = example_hash64bits,
        OF pack_example_hash] length_example_info check_peer_info_def unpack_example
        example_hash64bits_def)

text \<open>
  C1, as the specification has it: the listener-side acceptor (\<open>listener = True\<close>)
  receives and then sends, the connector sends and then receives. The code does the
  reverse: at this input the acceptor's events are not receive-then-send and the
  connector's are not send-then-receive.
\<close>

theorem exchange_peer_info_order_counterexample:
  "\<not> recv_then_send (fst (exchange_peer_info example_hash64bits
        \<lparr>send_wait = None, recv_wait = Inr (example_info 57 58 174)\<rparr> 37 38 True)) \<and>
   \<not> send_then_recv (fst (exchange_peer_info example_hash64bits
        \<lparr>send_wait = None, recv_wait = Inr (example_info 57 58 174)\<rparr> 37 38 False))"
  by (simp add: exchange_example send_then_recv_def recv_then_send_def)

text \<open>
  C1, amended: when the local tags pack and neither transfer fails,
  \<^verbatim>\<open>exchange_peer_info\<close> called with \<open>listener = True\<close> (the acceptor) posts the send,
  awaits it, posts the receive and awaits it; called with \<open>listener = False\<close> (the
  connector) it posts the receive, awaits it, posts the send and awaits it. The order
  depends on nothing but the flag, and an await separates the two transfers.
\<close>

theorem exchange_peer_info_order:
  assumes "struct_pack_QQQ msg_tag ctrl_tag (hash64bits [PInt msg_tag, PInt ctrl_tag]) = Inr my_info"
    and "send_wait env = None"
    and "recv_wait env = Inr peer_info"
  shows "fst (exchange_peer_info hash64bits env msg_tag ctrl_tag listener) =
           (if listener then [StreamSend my_info, Await, StreamRecv (length my_info), Await]
            else [StreamRecv (length my_info), Await, StreamSend my_info, Await]) \<and>
         send_then_recv (fst (exchange_peer_info hash64bits env msg_tag ctrl_tag listener))
           = listener \<and>
         recv_then_send (fst (exchange_peer_info hash64bits env msg_tag ctrl_tag listener))
           = (\<not> listener)"
  using assms by (simp add: exchange_peer_info_result send_then_recv_def recv_then_send_def)

theorem exchange_peer_info_order_witness:
  "fst (exchange_peer_info example_hash64bits
        \<lparr>send_wait = None, recv_wait = Inr (example_info 57 58 174)\<rparr> 37 38 True) =
     [StreamSend (example_info 37 38 114), Await, StreamRecv 24, Await] \<and>
   fst (exchange_peer_info example_hash64bits
        \<lparr>send_wait = None, recv_wait = Inr (example_info 57 58 174)\<rparr> 37 38 False) =
     [StreamRecv 24, Await, StreamSend (example_info 37 38 114), Await]"
  using exchange_peer_info_order [where hash64bits = example_hash64bits
          and env = "\<lparr>send_wait = None, recv_wait = Inr (example_info 57 58 174)\<rparr>"
          and peer_info = "example_info 57 58 174" and listener = True,
          OF pack_example_hash]
    exchange_peer_info_order [where hash64bits = example_hash64bits
          and env = "\<lparr>send_wait = None, recv_wait = Inr (example_info 57 58 174)\<rparr>"
          and peer_info = "example_info 57 58 174" and listener = False,
          OF pack_example_hash]
  by (simp add: length_example_info)

text \<open>
  C5: once both transfers have completed and the 24 bytes received unpack to
  \<open>(m, c, k)\<close>, \<^verbatim>\<open>exchange_peer_info\<close> returns the dictionary of the peer's fields when
  \<open>k\<close> is the hash of \<open>(m, c)\<close> and raises \<^verbatim>\<open>RuntimeError\<close> otherwise; it returns a
  result exactly when the checksum matches.
\<close>

theorem exchange_peer_info_checksum:
  assumes "struct_pack_QQQ msg_tag ctrl_tag (hash64bits [PInt msg_tag, PInt ctrl_tag]) = Inr my_info"
    and "send_wait env = None"
    and "recv_wait env = Inr peer_info"
    and "length peer_info = 24"
    and "struct_unpack_QQQ peer_info = Inr (m, c, k)"
  shows "snd (exchange_peer_info hash64bits env msg_tag ctrl_tag listener) =
           (if k = hash64bits [PInt m, PInt c]
            then Inr [''msg_tag'' \<mapsto> m, ''ctrl_tag'' \<mapsto> c, ''checksum'' \<mapsto> k]
            else Inl RuntimeError) \<and>
         (\<exists>ret. snd (exchange_peer_info hash64bits env msg_tag ctrl_tag listener) = Inr ret)
           = (k = hash64bits [PInt m, PInt c])"
  using assms by (auto simp: exchange_peer_info_result check_peer_info_def)

theorem exchange_peer_info_checksum_witness:
  "snd (exchange_peer_info example_hash64bits
          \<lparr>send_wait = None, recv_wait = Inr (example_info 57 58 174)\<rparr> 37 38 True) =
     Inr [''msg_tag'' \<mapsto> 57, ''ctrl_tag'' \<mapsto> 58, ''checksum'' \<mapsto> 174] \<and>
   snd (exchange_peer_info example_hash64bits
          \<lparr>send_wait = None, recv_wait = Inr (example_info 57 58 175)\<rparr> 37 38 False) =
     Inl RuntimeError"
proof -
  have good: "snd (exchange_peer_info example_hash64bits
          \<lparr>send_wait = None, recv_wait = Inr (example_info 57 58 174)\<rparr> 37 38 True) =
     Inr [''msg_tag'' \<mapsto> 57, ''ctrl_tag'' \<mapsto> 58, ''checksum'' \<mapsto> 174]"
    using exchange_peer_info_checksum [where hash64bits = example_hash64bits
        and env = "\<lparr>send_wait = None, recv_wait = Inr (example_info 57 58 174)\<rparr>"
        and listener = True, OF pack_example_hash _ _ length_example_info unpack_example]
    by (simp add: example_hash64bits_def)
  have bad: "snd (exchange_peer_info example_hash64bits
          \<lparr>send_wait = None, recv_wait = Inr (example_info 57 58 175)\<rparr> 37 38 False) =
     Inl RuntimeError"
    using exchange_peer_info_checksum [where hash64bits = example_hash64bits
        and env = "\<lparr>send_wait = None, recv_wait = Inr (example_info 57 58 175)\<rparr>"
        and listener = False, OF pack_example_hash _ _ length_example_info unpack_example_bad]
    by (simp add: example_hash64bits_def)
  show ?thesis using good bad by simp
qed

subsection \<open>The handshake round trip\<close>

lemma exchange_peer_info_Inr:
  assumes "exchange_peer_info hash64bits env msg_tag ctrl_tag listener = (evs, Inr peer_info)"
  shows "\<exists>my_info p.
           struct_pack_QQQ msg_tag ctrl_tag (hash64bits [PInt msg_tag, PInt ctrl_tag]) = Inr my_info \<and>
           send_wait env = None \<and> recv_wait env = Inr p \<and>
           check_peer_info hash64bits p = Inr peer_info \<and> stream_sent evs = my_info"
  using assms
  by (auto simp: exchange_peer_info_def stream_sent_def split: sum.splits option.splits if_splits)

lemma check_peer_info_Inr:
  assumes "check_peer_info hash64bits p = Inr peer_info" and "struct_unpack_QQQ p = Inr (m, c, k)"
  shows "peer_info = [''msg_tag'' \<mapsto> m, ''ctrl_tag'' \<mapsto> c, ''checksum'' \<mapsto> k]"
  using assms by (auto simp: check_peer_info_def Let_def split: if_splits)

lemma handshake_tags_peer:
  "handshake_tags [''msg_tag'' \<mapsto> m, ''ctrl_tag'' \<mapsto> c, ''checksum'' \<mapsto> k] msg_tag ctrl_tag =
     Inr [''msg_send'' \<mapsto> m, ''msg_recv'' \<mapsto> msg_tag, ''ctrl_send'' \<mapsto> c, ''ctrl_recv'' \<mapsto> ctrl_tag]"
  by (simp add: handshake_tags_def getitem_def)

lemma exchange_wired:
  assumes A: "exchange_peer_info hash64bits envA mA cA lA = (evsA, Inr pA)"
    and B: "exchange_peer_info hash64bits envB mB cB lB = (evsB, Inr pB)"
    and wireA: "recv_wait envA = Inr (stream_sent evsB)"
  shows "handshake_tags pA mA cA =
           Inr [''msg_send'' \<mapsto> mB, ''msg_recv'' \<mapsto> mA, ''ctrl_send'' \<mapsto> cB, ''ctrl_recv'' \<mapsto> cA]"
proof -
  from exchange_peer_info_Inr [OF A] wireA
  have chk: "check_peer_info hash64bits (stream_sent evsB) = Inr pA" by auto
  from exchange_peer_info_Inr [OF B]
  have pk: "struct_pack_QQQ mB cB (hash64bits [PInt mB, PInt cB]) = Inr (stream_sent evsB)"
    by auto
  from check_peer_info_Inr [OF chk struct_unpack_pack_QQQ [OF pk]]
  show ?thesis by (simp only: handshake_tags_peer)
qed

lemma getitem_tags:
  "getitem (Some [''msg_send'' \<mapsto> a, ''msg_recv'' \<mapsto> b, ''ctrl_send'' \<mapsto> c, ''ctrl_recv'' \<mapsto> d]) ''msg_send'' = Inr a"
  "getitem (Some [''msg_send'' \<mapsto> a, ''msg_recv'' \<mapsto> b, ''ctrl_send'' \<mapsto> c, ''ctrl_recv'' \<mapsto> d]) ''msg_recv'' = Inr b"
  "getitem (Some [''msg_send'' \<mapsto> a, ''msg_recv'' \<mapsto> b, ''ctrl_send'' \<mapsto> c, ''ctrl_recv'' \<mapsto> d]) ''ctrl_send'' = Inr c"
  "getitem (Some [''msg_send'' \<mapsto> a, ''msg_recv'' \<mapsto> b, ''ctrl_send'' \<mapsto> c, ''ctrl_recv'' \<mapsto> d]) ''ctrl_recv'' = Inr d"
  by (simp_all add: getitem_def)

lemma listener_handler_coroutine_Inr:
  assumes "listener_handler_coroutine hash64bits env seed conn ctx = (evs, Inr ep)"
  shows "\<exists>p. exchange_peer_info hash64bits env
               (hash64bits [PStr ''msg_tag'', PBytes seed, PInt (handle conn)])
               (hash64bits [PStr ''ctrl_tag'', PBytes seed, PInt (handle conn)]) True = (evs, Inr p) \<and>
             handshake_tags p (hash64bits [PStr ''msg_tag'', PBytes seed, PInt (handle conn)])
               (hash64bits [PStr ''ctrl_tag'', PBytes seed, PInt (handle conn)]) = Inr (the (ep_tags ep)) \<and>
             ep_tags ep \<noteq> None"
  using assms
  by (auto simp: listener_handler_coroutine_def Let_def Endpoint_def split: sum.splits prod.splits)

lemma create_endpoint_Inr:
  assumes "create_endpoint hash64bits loop env seed ucx_ep ref self = (self', evs, Inr ep)"
  shows "\<exists>p evs'. exchange_peer_info hash64bits env
               (hash64bits [PStr ''msg_tag'', PBytes seed, PInt (handle ucx_ep)])
               (hash64bits [PStr ''ctrl_tag'', PBytes seed, PInt (handle ucx_ep)]) False = (evs', Inr p) \<and>
             stream_sent evs = stream_sent evs' \<and>
             handshake_tags p (hash64bits [PStr ''msg_tag'', PBytes seed, PInt (handle ucx_ep)])
               (hash64bits [PStr ''ctrl_tag'', PBytes seed, PInt (handle ucx_ep)]) = Inr (the (ep_tags ep)) \<and>
             ep_tags ep \<noteq> None"
  using assms
  by (auto simp: create_endpoint_def Let_def Endpoint_def stream_sent_def split: sum.splits prod.splits)

text \<open>
  C6: the acceptor A runs \<^verbatim>\<open>_listener_handler_coroutine\<close>, the connector B runs
  \<^verbatim>\<open>create_endpoint\<close>, each receives the bytes the other has sent, and both complete.
  Then each endpoint has its own generated tags as \<^verbatim>\<open>msg_recv\<close> and \<^verbatim>\<open>ctrl_recv\<close>, and
  the send tags of each are the receive tags of the other.
\<close>

theorem handshake_round_trip:
  assumes A: "listener_handler_coroutine hash64bits envA seedA connA ctxA = (evsA, Inr epA)"
    and B: "create_endpoint hash64bits loopB envB seedB ucx_epB refB selfB = (selfB', evsB, Inr epB)"
    and wireA: "recv_wait envA = Inr (stream_sent evsB)"
    and wireB: "recv_wait envB = Inr (stream_sent evsA)"
  shows "getitem (ep_tags epA) ''msg_recv'' =
           Inr (hash64bits [PStr ''msg_tag'', PBytes seedA, PInt (handle connA)]) \<and>
         getitem (ep_tags epB) ''msg_recv'' =
           Inr (hash64bits [PStr ''msg_tag'', PBytes seedB, PInt (handle ucx_epB)]) \<and>
         getitem (ep_tags epA) ''ctrl_recv'' =
           Inr (hash64bits [PStr ''ctrl_tag'', PBytes seedA, PInt (handle connA)]) \<and>
         getitem (ep_tags epB) ''ctrl_recv'' =
           Inr (hash64bits [PStr ''ctrl_tag'', PBytes seedB, PInt (handle ucx_epB)]) \<and>
         getitem (ep_tags epA) ''msg_send'' = getitem (ep_tags epB) ''msg_recv'' \<and>
         getitem (ep_tags epB) ''msg_send'' = getitem (ep_tags epA) ''msg_recv'' \<and>
         getitem (ep_tags epA) ''ctrl_send'' = getitem (ep_tags epB) ''ctrl_recv'' \<and>
         getitem (ep_tags epB) ''ctrl_send'' = getitem (ep_tags epA) ''ctrl_recv''"
proof -
  from listener_handler_coroutine_Inr [OF A] obtain pA where
    xA: "exchange_peer_info hash64bits envA
               (hash64bits [PStr ''msg_tag'', PBytes seedA, PInt (handle connA)])
               (hash64bits [PStr ''ctrl_tag'', PBytes seedA, PInt (handle connA)]) True = (evsA, Inr pA)"
    and tA: "handshake_tags pA (hash64bits [PStr ''msg_tag'', PBytes seedA, PInt (handle connA)])
               (hash64bits [PStr ''ctrl_tag'', PBytes seedA, PInt (handle connA)]) = Inr (the (ep_tags epA))"
    and sA: "ep_tags epA \<noteq> None" by blast
  from create_endpoint_Inr [OF B] obtain pB evsB' where
    xB: "exchange_peer_info hash64bits envB
               (hash64bits [PStr ''msg_tag'', PBytes seedB, PInt (handle ucx_epB)])
               (hash64bits [PStr ''ctrl_tag'', PBytes seedB, PInt (handle ucx_epB)]) False = (evsB', Inr pB)"
    and ev: "stream_sent evsB = stream_sent evsB'"
    and tB: "handshake_tags pB (hash64bits [PStr ''msg_tag'', PBytes seedB, PInt (handle ucx_epB)])
               (hash64bits [PStr ''ctrl_tag'', PBytes seedB, PInt (handle ucx_epB)]) = Inr (the (ep_tags epB))"
    and sB: "ep_tags epB \<noteq> None" by blast
  from wireA ev have wA: "recv_wait envA = Inr (stream_sent evsB')" by simp
  from exchange_wired [OF xA xB wA] tA sA
  have eA: "ep_tags epA = Some [''msg_send'' \<mapsto> hash64bits [PStr ''msg_tag'', PBytes seedB, PInt (handle ucx_epB)],
       ''msg_recv'' \<mapsto> hash64bits [PStr ''msg_tag'', PBytes seedA, PInt (handle connA)],
       ''ctrl_send'' \<mapsto> hash64bits [PStr ''ctrl_tag'', PBytes seedB, PInt (handle ucx_epB)],
       ''ctrl_recv'' \<mapsto> hash64bits [PStr ''ctrl_tag'', PBytes seedA, PInt (handle connA)]]"
    by (cases "ep_tags epA") simp_all
  from exchange_wired [OF xB xA wireB] tB sB
  have eB: "ep_tags epB = Some [''msg_send'' \<mapsto> hash64bits [PStr ''msg_tag'', PBytes seedA, PInt (handle connA)],
       ''msg_recv'' \<mapsto> hash64bits [PStr ''msg_tag'', PBytes seedB, PInt (handle ucx_epB)],
       ''ctrl_send'' \<mapsto> hash64bits [PStr ''ctrl_tag'', PBytes seedA, PInt (handle connA)],
       ''ctrl_recv'' \<mapsto> hash64bits [PStr ''ctrl_tag'', PBytes seedB, PInt (handle ucx_epB)]]"
    by (cases "ep_tags epB") simp_all
  show ?thesis by (simp only: eA eB getitem_tags simp_thms)
qed

lemma pack_example_B: "struct_pack_QQQ 57 58 174 = Inr (example_info 57 58 174)"
  by (simp add: struct_pack_QQQ_def pack_Q_def eval_nat_numeral example_info_def)

lemma unpack_example_A: "struct_unpack_QQQ (example_info 37 38 114) = Inr (37, 38, 114)"
  by (simp add: struct_unpack_QQQ_def example_info_def)

lemma example_listener:
  "listener_handler_coroutine example_hash64bits
      \<lparr>send_wait = None, recv_wait = Inr (example_info 57 58 174)\<rparr> [1, 2] \<lparr>handle = 3\<rparr> 0 =
     ([StreamSend (example_info 37 38 114), Await, StreamRecv 24, Await],
      Inr example_endpoint)"
proof -
  have h: "example_hash64bits [PStr ''msg_tag'', PBytes [1, 2], PInt 3] = 37"
    "example_hash64bits [PStr ''ctrl_tag'', PBytes [1, 2], PInt 3] = 38"
    by (simp_all add: example_hash64bits_def)
  show ?thesis
    by (simp add: listener_handler_coroutine_def h exchange_example handshake_tags_peer
        example_endpoint_def)
qed

lemma example_connector:
  "create_endpoint example_hash64bits 0
      \<lparr>send_wait = None, recv_wait = Inr (example_info 37 38 114)\<rparr> [3, 4] \<lparr>handle = 5\<rparr> 0 example_context =
     (example_context\<lparr>progress_tasks := [ThreadMode 0 False]\<rparr>,
      [UCXEndpointCreate, WorkerProgress, StreamRecv 24, Await,
       StreamSend (example_info 57 58 174), Await],
      Inr example_peer_endpoint)"
proof -
  have h: "example_hash64bits [PStr ''msg_tag'', PBytes [3, 4], PInt 5] = 57"
    "example_hash64bits [PStr ''ctrl_tag'', PBytes [3, 4], PInt 5] = 58"
    by (simp_all add: example_hash64bits_def)
  have pk: "struct_pack_QQQ 57 58 (example_hash64bits [PInt 57, PInt 58]) = Inr (example_info 57 58 174)"
    by (simp add: example_hash64bits_def pack_example_B)
  have x: "exchange_peer_info example_hash64bits
      \<lparr>send_wait = None, recv_wait = Inr (example_info 37 38 114)\<rparr> 57 58 False =
     ([StreamRecv 24, Await, StreamSend (example_info 57 58 174), Await],
      Inr [''msg_tag'' \<mapsto> 37, ''ctrl_tag'' \<mapsto> 38, ''checksum'' \<mapsto> 114])"
    by (simp add: exchange_peer_info_result [where hash64bits = example_hash64bits, OF pk]
        length_example_info check_peer_info_def unpack_example_A example_hash64bits_def)
  have c: "continuous_ucx_progress 0 example_context None = Inr (example_context\<lparr>progress_tasks := [ThreadMode 0 False]\<rparr>)"
    by (simp add: continuous_ucx_progress_def example_context_def loop_in_progress_tasks_def)
  show ?thesis
    by (simp add: create_endpoint_def c h x handshake_tags_peer example_peer_endpoint_def)
qed

theorem handshake_round_trip_witness:
  "snd (listener_handler_coroutine example_hash64bits
      \<lparr>send_wait = None, recv_wait = Inr (example_info 57 58 174)\<rparr> [1, 2] \<lparr>handle = 3\<rparr> 0) =
     Inr example_endpoint \<and>
   snd (snd (create_endpoint example_hash64bits 0
      \<lparr>send_wait = None, recv_wait = Inr (example_info 37 38 114)\<rparr> [3, 4] \<lparr>handle = 5\<rparr> 0
      example_context)) = Inr example_peer_endpoint \<and>
   getitem (ep_tags example_endpoint) ''msg_send'' = Inr 57 \<and>
   getitem (ep_tags example_peer_endpoint) ''msg_recv'' = Inr 57 \<and>
   getitem (ep_tags example_peer_endpoint) ''msg_send'' = Inr 37 \<and>
   getitem (ep_tags example_endpoint) ''msg_recv'' = Inr 37 \<and>
   getitem (ep_tags example_endpoint) ''ctrl_send'' = getitem (ep_tags example_peer_endpoint) ''ctrl_recv'' \<and>
   getitem (ep_tags example_peer_endpoint) ''ctrl_send'' = getitem (ep_tags example_endpoint) ''ctrl_recv''"
  using handshake_round_trip [OF example_listener example_connector]
  by (simp add: stream_sent_def example_hash64bits_def example_listener example_connector)

subsection \<open>Sending: cancellation, a closed endpoint, the tag on the wire\<close>

lemma example_endpoint_fields:
  "ep_ep example_endpoint = Some \<lparr>handle = 3\<rparr>"
  "ep_ctx example_endpoint = Some 0"
  "ep_tags example_endpoint = Some [''msg_send'' \<mapsto> 57, ''msg_recv'' \<mapsto> 37, ''ctrl_send'' \<mapsto> 58, ''ctrl_recv'' \<mapsto> 38]"
  "ep_close_after_n_recv example_endpoint = None"
  "ep_finished_recv_count example_endpoint = 0"
  by (simp_all add: example_endpoint_def Endpoint_def)

lemma example_endpoint_msg_send: "getitem (ep_tags example_endpoint) ''msg_send'' = Inr 57"
  by (simp add: example_endpoint_fields getitem_def)

lemma raise_if_closed_open:
  "ep_ep self = Some u \<Longrightarrow> raise_on_error env = None \<Longrightarrow> is_alive env \<Longrightarrow> raise_if_closed env self = None"
  by (simp add: raise_if_closed_def closed_def)

lemma ep_ep_abort: "ep_ep (abort self) = None"
  by (simp add: abort_def)

lemma await_send_canceled:
  "wait env = Inl UCXCanceled \<Longrightarrow>
     await_send env self evs =
       (if abort_while_waiting env then (abort self, evs, Inl UCXCanceled)
        else if ep_ep self = None then (self, evs, Inl UCXCanceled) else (self, evs, Inr PNone))"
  by (simp add: await_send_def ep_ep_abort)

text \<open>
  C2, as the specification has it: a cancellation is raised again unless the endpoint has
  been torn down locally, and swallowed when it has. The code does the reverse. With no
  \<^verbatim>\<open>abort()\<close> during the wait the handle is still there and the call returns \<^verbatim>\<open>None\<close>;
  with an \<^verbatim>\<open>abort()\<close> during the wait the handle is gone and \<^verbatim>\<open>UCXCanceled\<close> is raised.
\<close>

theorem send_canceled_counterexample:
  "snd (snd (send example_hash64bits example_hash
       \<lparr>raise_on_error = None, is_alive = True, tag_probe = False, wait = Inl UCXCanceled,
        abort_while_waiting = False\<rparr> example_endpoint [1, 2, 3, 4] PNone False)) = Inr PNone \<and>
   ep_ep (fst (send example_hash64bits example_hash
       \<lparr>raise_on_error = None, is_alive = True, tag_probe = False, wait = Inl UCXCanceled,
        abort_while_waiting = False\<rparr> example_endpoint [1, 2, 3, 4] PNone False)) = Some \<lparr>handle = 3\<rparr> \<and>
   snd (snd (send example_hash64bits example_hash
       \<lparr>raise_on_error = None, is_alive = True, tag_probe = False, wait = Inl UCXCanceled,
        abort_while_waiting = True\<rparr> example_endpoint [1, 2, 3, 4] PNone False)) = Inl UCXCanceled \<and>
   ep_ep (fst (send example_hash64bits example_hash
       \<lparr>raise_on_error = None, is_alive = True, tag_probe = False, wait = Inl UCXCanceled,
        abort_while_waiting = True\<rparr> example_endpoint [1, 2, 3, 4] PNone False)) = None"
  by (simp add: send_def raise_if_closed_open example_endpoint_fields effective_tag_def getitem_def
      await_send_canceled ep_ep_abort)

text \<open>
  C2, amended: when a \<^verbatim>\<open>send\<close> or \<^verbatim>\<open>send_multi\<close> on an open endpoint has posted its
  request and the request resolves as canceled, the cancellation is raised to the caller
  exactly when the endpoint has been torn down locally by then (\<^verbatim>\<open>abort()\<close> ran while
  the call was suspended, so \<^verbatim>\<open>self._ep is None\<close>); otherwise it is swallowed and the call
  returns \<^verbatim>\<open>None\<close>.
\<close>

theorem send_canceled:
  assumes "ep_ep self = Some u" and "raise_on_error env = None" and "is_alive env"
    and "effective_tag hash64bits hash (ep_tags self) ''msg_send'' tag force_tag = Inr t"
    and "wait env = Inl UCXCanceled"
  shows "snd (snd (send hash64bits hash env self buffer tag force_tag)) =
           (if ep_ep (fst (send hash64bits hash env self buffer tag force_tag)) = None
            then Inl UCXCanceled else Inr PNone) \<and>
         snd (snd (send_multi hash64bits hash env self buffers tag force_tag)) =
           (if ep_ep (fst (send_multi hash64bits hash env self buffers tag force_tag)) = None
            then Inl UCXCanceled else Inr PNone) \<and>
         (ep_ep (fst (send hash64bits hash env self buffer tag force_tag)) = None)
           = abort_while_waiting env \<and>
         (ep_ep (fst (send_multi hash64bits hash env self buffers tag force_tag)) = None)
           = abort_while_waiting env"
  using assms
  by (simp add: send_def send_multi_def raise_if_closed_open await_send_canceled ep_ep_abort)

theorem send_canceled_witness:
  "snd (snd (send example_hash64bits example_hash
       \<lparr>raise_on_error = None, is_alive = True, tag_probe = False, wait = Inl UCXCanceled,
        abort_while_waiting = True\<rparr> example_endpoint [1, 2, 3, 4] PNone False)) = Inl UCXCanceled \<and>
   snd (snd (send_multi example_hash64bits example_hash
       \<lparr>raise_on_error = None, is_alive = True, tag_probe = False, wait = Inl UCXCanceled,
        abort_while_waiting = False\<rparr> example_endpoint [[1, 2], [3, 4]] PNone False)) = Inr PNone"
proof -
  have t: "effective_tag example_hash64bits example_hash (ep_tags example_endpoint) ''msg_send'' PNone False = Inr (PInt 57)"
    by (simp add: effective_tag_def example_endpoint_msg_send)
  show ?thesis
    using send_canceled [where hash64bits = example_hash64bits and hash = example_hash
        and env = "\<lparr>raise_on_error = None, is_alive = True, tag_probe = False, wait = Inl UCXCanceled,
        abort_while_waiting = True\<rparr>" and buffer = "[1, 2, 3, 4]" and buffers = "[[1, 2], [3, 4]]",
        OF example_endpoint_fields(1) _ _ t]
      send_canceled [where hash64bits = example_hash64bits and hash = example_hash
        and env = "\<lparr>raise_on_error = None, is_alive = True, tag_probe = False, wait = Inl UCXCanceled,
        abort_while_waiting = False\<rparr>" and buffer = "[1, 2, 3, 4]" and buffers = "[[1, 2], [3, 4]]",
        OF example_endpoint_fields(1) _ _ t]
    by simp
qed

text \<open>
  After \<^verbatim>\<open>abort()\<close> both \<^verbatim>\<open>self._ep\<close> and \<^verbatim>\<open>self._ctx\<close> are \<^verbatim>\<open>None\<close>. \<^verbatim>\<open>send\<close> and
  \<^verbatim>\<open>send_multi\<close> then fail in \<^verbatim>\<open>self._ep.raise_on_error()\<close>, the statement before the
  test of \<^verbatim>\<open>closed()\<close>; \<^verbatim>\<open>recv\<close> fails in \<^verbatim>\<open>self._ctx.worker\<close>, or earlier in the lookup
  of its tag. None of them reaches \<^verbatim>\<open>raise UCXCloseError\<close>.
\<close>

lemma send_recv_after_abort:
  "snd (snd (send hash64bits hash env (abort self) buffer tag force_tag)) = Inl AttributeError \<and>
   snd (snd (send_multi hash64bits hash env (abort self) buffers tag force_tag)) = Inl AttributeError \<and>
   (snd (snd (recv hash64bits hash env (abort self) buffer tag force_tag)) = Inl AttributeError \<or>
    snd (snd (recv hash64bits hash env (abort self) buffer tag force_tag)) = Inl TypeError \<or>
    snd (snd (recv hash64bits hash env (abort self) buffer tag force_tag)) = Inl KeyError)"
  by (auto simp: send_def send_multi_def recv_def raise_if_closed_def abort_def effective_tag_def
      getitem_def split: sum.splits option.splits)

text \<open>
  C3: on an endpoint on which \<^verbatim>\<open>abort()\<close> has been called, \<^verbatim>\<open>send\<close> and \<^verbatim>\<open>recv\<close> should
  fail with \<^verbatim>\<open>UCXCloseError\<close>. On the endpoint of a completed handshake, aborted, the
  code raises \<^verbatim>\<open>AttributeError\<close> from both.
\<close>

theorem send_after_abort_example:
  "snd (snd (send example_hash64bits example_hash
       \<lparr>raise_on_error = None, is_alive = True, tag_probe = False, wait = Inr PNone,
        abort_while_waiting = False\<rparr> (abort example_endpoint) [1, 2, 3, 4] PNone False)) = Inl AttributeError \<and>
   snd (snd (recv example_hash64bits example_hash
       \<lparr>raise_on_error = None, is_alive = True, tag_probe = False, wait = Inr PNone,
        abort_while_waiting = False\<rparr> (abort example_endpoint) [0, 0, 0, 0] PNone False)) = Inl AttributeError"
  by (simp add: send_def recv_def raise_if_closed_def abort_def effective_tag_def
      getitem_def example_endpoint_def Endpoint_def)

text \<open>
  C7: on an open endpoint with a negotiated message-send tag \<open>m\<close>, \<^verbatim>\<open>send\<close> and
  \<^verbatim>\<open>send_multi\<close> post their request with the tag \<open>m\<close> when \<^verbatim>\<open>tag\<close> is \<^verbatim>\<open>None\<close>, with
  \<^verbatim>\<open>hash64bits(m, hash(tag))\<close> when a tag is given and \<^verbatim>\<open>force_tag\<close> is false, and with
  the given tag itself when \<^verbatim>\<open>force_tag\<close> is true; the last also on an endpoint without
  negotiated tags.
\<close>

theorem send_wire_tag:
  assumes "ep_ep self = Some u" and "raise_on_error env = None" and "is_alive env"
  shows "(getitem (ep_tags self) ''msg_send'' = Inr m \<longrightarrow>
            fst (snd (send hash64bits hash env self buffer tag force_tag)) =
              [TagSend buffer
                 (if tag = PNone then PInt m
                  else if \<not> force_tag then PInt (hash64bits [PInt m, PInt (hash tag)])
                  else tag), Await] \<and>
            fst (snd (send_multi hash64bits hash env self buffers tag force_tag)) =
              [TagSendMulti buffers
                 (if tag = PNone then PInt m
                  else if \<not> force_tag then PInt (hash64bits [PInt m, PInt (hash tag)])
                  else tag), Await]) \<and>
         (tag \<noteq> PNone \<and> force_tag \<longrightarrow>
            fst (snd (send hash64bits hash env self buffer tag force_tag)) =
              [TagSend buffer tag, Await] \<and>
            fst (snd (send_multi hash64bits hash env self buffers tag force_tag)) =
              [TagSendMulti buffers tag, Await])"
  using assms
  by (auto simp: send_def send_multi_def raise_if_closed_open effective_tag_def await_send_def
      Let_def split: sum.splits)

theorem send_wire_tag_witness:
  "fst (snd (send example_hash64bits example_hash
       \<lparr>raise_on_error = None, is_alive = True, tag_probe = False, wait = Inr PNone,
        abort_while_waiting = False\<rparr> example_endpoint [1, 2, 3, 4] PNone False)) =
     [TagSend [1, 2, 3, 4] (PInt 57), Await] \<and>
   fst (snd (send example_hash64bits example_hash
       \<lparr>raise_on_error = None, is_alive = True, tag_probe = False, wait = Inr PNone,
        abort_while_waiting = False\<rparr> example_endpoint [1, 2, 3, 4] (PInt 9) False)) =
     [TagSend [1, 2, 3, 4] (PInt 76), Await] \<and>
   fst (snd (send_multi example_hash64bits example_hash
       \<lparr>raise_on_error = None, is_alive = True, tag_probe = False, wait = Inr PNone,
        abort_while_waiting = False\<rparr> example_endpoint [[1, 2], [3, 4]] (PInt 9) True)) =
     [TagSendMulti [[1, 2], [3, 4]] (PInt 9), Await]"
  using send_wire_tag [where hash64bits = example_hash64bits and hash = example_hash
        and env = "\<lparr>raise_on_error = None, is_alive = True, tag_probe = False, wait = Inr PNone,
        abort_while_waiting = False\<rparr>" and buffer = "[1, 2, 3, 4]" and buffers = "[[1, 2], [3, 4]]"
        and tag = PNone and force_tag = False and m = 57, OF example_endpoint_fields(1)]
      send_wire_tag [where hash64bits = example_hash64bits and hash = example_hash
        and env = "\<lparr>raise_on_error = None, is_alive = True, tag_probe = False, wait = Inr PNone,
        abort_while_waiting = False\<rparr>" and buffer = "[1, 2, 3, 4]" and buffers = "[[1, 2], [3, 4]]"
        and tag = "PInt 9" and force_tag = False and m = 57, OF example_endpoint_fields(1)]
      send_wire_tag [where hash64bits = example_hash64bits and hash = example_hash
        and env = "\<lparr>raise_on_error = None, is_alive = True, tag_probe = False, wait = Inr PNone,
        abort_while_waiting = False\<rparr>" and buffer = "[1, 2, 3, 4]" and buffers = "[[1, 2], [3, 4]]"
        and tag = "PInt 9" and force_tag = True and m = 57, OF example_endpoint_fields(1)]
  by (simp add: example_endpoint_msg_send example_hash64bits_def example_hash_def)

subsection \<open>\<^verbatim>\<open>close_after_n_recv\<close>\<close>

text \<open>
  C8, as the specification has it, ends with: \<^verbatim>\<open>close_after_n_recv(3)\<close> on an endpoint
  that has completed 3 receives aborts at once. The argument counts from the call by
  default: the threshold becomes 6 and the endpoint keeps its handle.
\<close>

theorem close_after_n_recv_counterexample:
  "close_after_n_recv (example_endpoint\<lparr>ep_recv_count := 3, ep_finished_recv_count := 3\<rparr>) 3 False =
     Inr (example_endpoint\<lparr>ep_recv_count := 3, ep_finished_recv_count := 3,
            ep_close_after_n_recv := Some 6\<rparr>) \<and>
   ep_ep (example_endpoint\<lparr>ep_recv_count := 3, ep_finished_recv_count := 3,
            ep_close_after_n_recv := Some 6\<rparr>) = Some \<lparr>handle = 3\<rparr>"
  by (simp add: close_after_n_recv_def example_endpoint_def Endpoint_def)

text \<open>
  C8, amended: \<^verbatim>\<open>close_after_n_recv\<close> makes \<open>n\<close> absolute (adding the finished-receive
  count unless \<^verbatim>\<open>count_from_ep_creation\<close> is set), raises \<^verbatim>\<open>UCXError\<close> when a threshold
  is already armed, aborts the endpoint at once when the absolute threshold equals the
  finished-receive count, arms it when it is greater and raises \<^verbatim>\<open>UCXError\<close> when it
  is smaller. On an endpoint with 3 finished receives, \<^verbatim>\<open>close_after_n_recv(3, True)\<close>
  and \<^verbatim>\<open>close_after_n_recv(0)\<close> abort at once, and \<^verbatim>\<open>close_after_n_recv(3)\<close> arms the
  threshold 6.
\<close>

theorem close_after_n_recv_cases:
  "(ep_close_after_n_recv self \<noteq> None \<longrightarrow>
      close_after_n_recv self n c = Inl UCXError) \<and>
   (ep_close_after_n_recv self = None \<and> absolute_n self n c = ep_finished_recv_count self \<longrightarrow>
      close_after_n_recv self n c = Inr (abort self)) \<and>
   (ep_close_after_n_recv self = None \<and> absolute_n self n c > ep_finished_recv_count self \<longrightarrow>
      close_after_n_recv self n c = Inr (self\<lparr>ep_close_after_n_recv := Some (absolute_n self n c)\<rparr>)) \<and>
   (ep_close_after_n_recv self = None \<and> absolute_n self n c < ep_finished_recv_count self \<longrightarrow>
      close_after_n_recv self n c = Inl UCXError) \<and>
   (ep_close_after_n_recv self = None \<and> ep_finished_recv_count self = 3 \<longrightarrow>
      close_after_n_recv self 3 True = Inr (abort self) \<and>
      close_after_n_recv self 0 False = Inr (abort self) \<and>
      close_after_n_recv self 3 False = Inr (self\<lparr>ep_close_after_n_recv := Some 6\<rparr>))"
  by (auto simp: close_after_n_recv_def absolute_n_def Let_def)

theorem close_after_n_recv_cases_witness:
  "close_after_n_recv (example_endpoint\<lparr>ep_close_after_n_recv := Some 5\<rparr>) 7 False = Inl UCXError \<and>
   close_after_n_recv (example_endpoint\<lparr>ep_finished_recv_count := 3\<rparr>) 3 True =
     Inr (abort (example_endpoint\<lparr>ep_finished_recv_count := 3\<rparr>)) \<and>
   ep_ep (abort (example_endpoint\<lparr>ep_finished_recv_count := 3\<rparr>)) = None \<and>
   close_after_n_recv (example_endpoint\<lparr>ep_finished_recv_count := 3\<rparr>) 2 False =
     Inr (example_endpoint\<lparr>ep_finished_recv_count := 3, ep_close_after_n_recv := Some 5\<rparr>) \<and>
   close_after_n_recv (example_endpoint\<lparr>ep_finished_recv_count := 3\<rparr>) 2 True = Inl UCXError"
  using close_after_n_recv_cases [of "example_endpoint\<lparr>ep_close_after_n_recv := Some 5\<rparr>" 7 False]
    close_after_n_recv_cases [of "example_endpoint\<lparr>ep_finished_recv_count := 3\<rparr>" 3 True]
    close_after_n_recv_cases [of "example_endpoint\<lparr>ep_finished_recv_count := 3\<rparr>" 2 False]
    close_after_n_recv_cases [of "example_endpoint\<lparr>ep_finished_recv_count := 3\<rparr>" 2 True]
  by (simp add: absolute_n_def example_endpoint_fields ep_ep_abort)

subsection \<open>Progress bindings\<close>

lemma continuous_ucx_progress_registered:
  "loop_in_progress_tasks (case event_loop of Some l \<Rightarrow> l | None \<Rightarrow> current_loop) (progress_tasks self)
     \<Longrightarrow> continuous_ucx_progress current_loop self event_loop = Inr self"
  by (simp add: continuous_ucx_progress_def)

lemma continuous_ucx_progress_new:
  assumes "\<not> loop_in_progress_tasks loop (progress_tasks self)"
    and "ctx_progress_mode self \<in> set valid_progress_modes"
    and "loop = (case event_loop of Some l \<Rightarrow> l | None \<Rightarrow> current_loop)"
  shows "\<exists>t. task_event_loop t = loop \<and>
           continuous_ucx_progress current_loop self event_loop =
             Inr (self\<lparr>progress_tasks := progress_tasks self @ [t]\<rparr>)"
proof -
  from assms(2) consider "ctx_progress_mode self = ''thread''"
    | "ctx_progress_mode self = ''thread-polling''" | "ctx_progress_mode self = ''polling''"
    by (auto simp: valid_progress_modes_def)
  then show ?thesis
  proof cases
    case 1
    with assms(1,3) show ?thesis
      by (intro exI [of _ "ThreadMode loop False"]) (simp add: continuous_ucx_progress_def)
  next
    case 2
    with assms(1,3) show ?thesis
      by (intro exI [of _ "ThreadMode loop True"]) (simp add: continuous_ucx_progress_def)
  next
    case 3
    with assms(1,3) show ?thesis
      by (intro exI [of _ "PollingMode loop"]) (simp add: continuous_ucx_progress_def)
  qed
qed

lemma distinct_filter_loop:
  "distinct (map task_event_loop ts) \<Longrightarrow> l \<in> set (map task_event_loop ts) \<Longrightarrow>
     length (filter (\<lambda>t. task_event_loop t = l) ts) = 1"
proof (induction ts)
  case Nil
  then show ?case by simp
next
  case (Cons t ts)
  show ?case
  proof (cases "task_event_loop t = l")
    case True
    from Cons.prems(1) have "task_event_loop t \<notin> task_event_loop ` set ts" by simp
    with True have "\<forall>x\<in>set ts. task_event_loop x \<noteq> l" by blast
    then have "filter (\<lambda>t. task_event_loop t = l) ts = []"
      by (simp add: filter_empty_conv)
    with True show ?thesis by simp
  next
    case False
    with Cons show ?thesis by auto
  qed
qed

lemma continuous_ucx_progress_distinct:
  assumes "distinct (map task_event_loop (progress_tasks self))"
    and "continuous_ucx_progress current_loop self event_loop = Inr self'"
  shows "distinct (map task_event_loop (progress_tasks self'))"
  using assms
  by (auto simp: continuous_ucx_progress_def loop_in_progress_tasks_def Let_def split: if_splits)

lemma check_progress_mode_valid:
  "check_progress_mode environ progress_mode = Inr mode \<Longrightarrow> mode \<in> set valid_progress_modes"
  by (auto simp: check_progress_mode_def Let_def split: option.splits pyval.splits if_splits)

lemma start_notifier_thread_keeps:
  "start_notifier_thread builtins f self = (self', evs, r) \<Longrightarrow>
     progress_tasks self' = progress_tasks self \<and> ctx_progress_mode self' = ctx_progress_mode self \<and>
     ctx_worker self' = ctx_worker self"
  by (auto simp: start_notifier_thread_def Let_def split: if_splits)

lemma continuous_ucx_progress_keeps:
  "continuous_ucx_progress current_loop self event_loop = Inr self' \<Longrightarrow>
     ctx_progress_mode self' = ctx_progress_mode self \<and> ctx_worker self' = ctx_worker self"
  by (auto simp: continuous_ucx_progress_def Let_def split: if_splits)

text \<open>
  Every context that \<^verbatim>\<open>__init__\<close> returns has a valid progress mode and at most one
  binding for each loop, and \<^verbatim>\<open>continuous_ucx_progress\<close> keeps both
  (\<open>continuous_ucx_progress_distinct\<close>, \<open>continuous_ucx_progress_keeps\<close>).
\<close>

lemma ApplicationContext_init_invariant:
  assumes "ApplicationContext_init builtins f environ current_loop config_dict progress_mode eds epf
             = (evs, Inr self)"
  shows "distinct (map task_event_loop (progress_tasks self)) \<and>
         ctx_progress_mode self \<in> set valid_progress_modes"
proof -
  from assms obtain mode where m: "check_progress_mode environ progress_mode = Inr mode"
    by (auto simp: ApplicationContext_init_def split: sum.splits)
  let ?s0 = "\<lparr>progress_tasks = [], notifier_thread_q = None, notifier_thread = None,
      ctx_progress_mode = mode, config = config_dict,
      ctx_worker = \<lparr>worker_enable_delayed_submission = check_enable_delayed_submission environ eds,
                    worker_enable_python_future = check_enable_python_future environ epf mode\<rparr>\<rparr>"
  from assms m obtain s1 evs1 u where
    s: "start_notifier_thread builtins f ?s0 = (s1, evs1, Inr u)"
    and c: "continuous_ucx_progress current_loop s1 None = Inr self"
    by (auto simp: ApplicationContext_init_def Let_def split: sum.splits prod.splits)
  from start_notifier_thread_keeps [OF s]
  have k1: "progress_tasks s1 = []" "ctx_progress_mode s1 = mode" by simp_all
  have d1: "distinct (map task_event_loop (progress_tasks s1))" by (simp add: k1)
  from continuous_ucx_progress_distinct [OF d1 c] continuous_ucx_progress_keeps [OF c] k1
    check_progress_mode_valid [OF m]
  show ?thesis by simp
qed

text \<open>
  C4: on a context with a valid progress mode and at most one binding for each loop,
  \<^verbatim>\<open>continuous_ucx_progress\<close> with an event loop succeeds, a second call with the same
  loop returns the context unchanged, and the context then holds exactly one binding for
  that loop.
\<close>

theorem continuous_ucx_progress_idempotent:
  assumes inv: "distinct (map task_event_loop (progress_tasks self))"
    and mode: "ctx_progress_mode self \<in> set valid_progress_modes"
    and loop: "loop = (case event_loop of Some l \<Rightarrow> l | None \<Rightarrow> current_loop)"
  shows "\<exists>self'. continuous_ucx_progress current_loop self event_loop = Inr self' \<and>
           continuous_ucx_progress current_loop self' event_loop = Inr self' \<and>
           length (bindings_for loop self') = 1 \<and>
           distinct (map task_event_loop (progress_tasks self'))"
proof (cases "loop_in_progress_tasks loop (progress_tasks self)")
  case True
  then have "continuous_ucx_progress current_loop self event_loop = Inr self"
    using loop by (simp add: continuous_ucx_progress_registered)
  moreover have "length (bindings_for loop self) = 1"
    using True inv by (simp add: bindings_for_def loop_in_progress_tasks_def distinct_filter_loop)
  ultimately show ?thesis using inv by simp
next
  case False
  from continuous_ucx_progress_new [OF False mode loop] obtain t where
    t: "task_event_loop t = loop"
    and r: "continuous_ucx_progress current_loop self event_loop =
             Inr (self\<lparr>progress_tasks := progress_tasks self @ [t]\<rparr>)" by blast
  let ?s = "self\<lparr>progress_tasks := progress_tasks self @ [t]\<rparr>"
  have reg: "loop_in_progress_tasks loop (progress_tasks ?s)"
    using t by (simp add: loop_in_progress_tasks_def)
  have again: "continuous_ucx_progress current_loop ?s event_loop = Inr ?s"
    using reg loop by (simp add: continuous_ucx_progress_registered)
  have d: "distinct (map task_event_loop (progress_tasks ?s))"
    by (rule continuous_ucx_progress_distinct [OF inv r])
  have m: "loop \<in> set (map task_event_loop (progress_tasks ?s))"
    using reg unfolding loop_in_progress_tasks_def .
  have "length (bindings_for loop ?s) = 1"
    unfolding bindings_for_def by (rule distinct_filter_loop [OF d m])
  with r again d show ?thesis by blast
qed

lemma example_progress:
  "continuous_ucx_progress 0 example_context None =
     Inr (example_context\<lparr>progress_tasks := [ThreadMode 0 False]\<rparr>)"
  by (simp add: continuous_ucx_progress_def example_context_def loop_in_progress_tasks_def)

theorem continuous_ucx_progress_idempotent_witness:
  "continuous_ucx_progress 0 example_context None =
     Inr (example_context\<lparr>progress_tasks := [ThreadMode 0 False]\<rparr>) \<and>
   continuous_ucx_progress 0 (example_context\<lparr>progress_tasks := [ThreadMode 0 False]\<rparr>) None =
     Inr (example_context\<lparr>progress_tasks := [ThreadMode 0 False]\<rparr>) \<and>
   length (bindings_for 0 (example_context\<lparr>progress_tasks := [ThreadMode 0 False]\<rparr>)) = 1"
proof -
  have inv: "distinct (map task_event_loop (progress_tasks example_context))"
    by (simp add: example_context_def)
  have mode: "ctx_progress_mode example_context \<in> set valid_progress_modes"
    by (simp add: example_context_def valid_progress_modes_def)
  have loop: "(0::loop_ref) = (case None of Some l \<Rightarrow> l | None \<Rightarrow> 0)" by simp
  from continuous_ucx_progress_idempotent [OF inv mode loop]
  show ?thesis by (simp add: example_progress)
qed

subsection \<open>Construction of the context\<close>

lemma loop_not_global: "''loop'' \<notin> set module_globals"
  by (simp add: module_globals_def)

text \<open>
  C9: when the worker reports that Python futures are enabled, and \<^verbatim>\<open>loop\<close> is not a
  builtin name, \<^verbatim>\<open>start_notifier_thread\<close> raises \<^verbatim>\<open>NameError\<close> for \<^verbatim>\<open>loop\<close>; the
  attribute \<^verbatim>\<open>notifier_thread\<close> is left as it was and no thread is started.
\<close>

theorem start_notifier_thread_name_error:
  assumes "is_python_future_enabled (ctx_worker self)" and "''loop'' \<notin> set builtins"
  shows "snd (snd (start_notifier_thread builtins is_python_future_enabled self)) =
           Inl (NameError ''loop'') \<and>
         notifier_thread (fst (start_notifier_thread builtins is_python_future_enabled self)) =
           notifier_thread self \<and>
         ThreadStart \<notin> set (fst (snd (start_notifier_thread builtins is_python_future_enabled self)))"
  using assms by (simp add: start_notifier_thread_def name_is_bound_def loop_not_global Let_def)

theorem start_notifier_thread_name_error_witness:
  "start_notifier_thread example_builtins worker_enable_python_future example_context =
     (example_context\<lparr>notifier_thread_q := Some []\<rparr>, [QueueCreate], Inl (NameError ''loop''))"
proof -
  have e: "worker_enable_python_future (ctx_worker example_context)"
    by (simp add: example_context_def)
  have b: "''loop'' \<notin> set example_builtins"
    by (simp add: example_builtins_def)
  have q: "fst (start_notifier_thread example_builtins worker_enable_python_future example_context) =
      example_context\<lparr>notifier_thread_q := Some []\<rparr>"
    "fst (snd (start_notifier_thread example_builtins worker_enable_python_future example_context)) =
      [QueueCreate]"
    by (simp_all add: start_notifier_thread_def e Let_def name_is_bound_def b loop_not_global)
  from start_notifier_thread_name_error [where is_python_future_enabled = worker_enable_python_future
      and self = example_context, OF e b] q
  show ?thesis by (simp add: prod_eq_iff)
qed

text \<open>The constructor calls \<^verbatim>\<open>start_notifier_thread\<close>, so it fails in the same way.\<close>

lemma ApplicationContext_init_name_error:
  assumes "check_progress_mode environ progress_mode = Inr mode"
    and "is_python_future_enabled
           \<lparr>worker_enable_delayed_submission = check_enable_delayed_submission environ eds,
            worker_enable_python_future = check_enable_python_future environ epf mode\<rparr>"
    and "''loop'' \<notin> set builtins"
  shows "snd (ApplicationContext_init builtins is_python_future_enabled environ current_loop
                config_dict progress_mode eds epf) = Inl (NameError ''loop'')"
  using assms
  by (simp add: ApplicationContext_init_def start_notifier_thread_def name_is_bound_def
      loop_not_global Let_def)

text \<open>
  C10: \<^verbatim>\<open>_check_enable_delayed_submission\<close> returns \<^verbatim>\<open>None\<close> for every environment and
  every argument; every \<^verbatim>\<open>UCXWorker\<close> that \<^verbatim>\<open>__init__\<close> constructs gets
  \<^verbatim>\<open>enable_delayed_submission=None\<close>, and so does the worker of every context it
  returns.
\<close>

theorem check_enable_delayed_submission_None:
  "check_enable_delayed_submission environ eds = None \<and>
   (UCXWorkerCreate d f \<in> set (fst (ApplicationContext_init builtins is_python_future_enabled
        environ current_loop config_dict progress_mode eds epf)) \<longrightarrow> d = None) \<and>
   (snd (ApplicationContext_init builtins is_python_future_enabled
        environ current_loop config_dict progress_mode eds epf) = Inr self \<longrightarrow>
      worker_enable_delayed_submission (ctx_worker self) = None)"
  by (auto simp: check_enable_delayed_submission_def ApplicationContext_init_def Let_def
      start_notifier_thread_def continuous_ucx_progress_def
      split: sum.splits prod.splits if_splits)

lemma example_init:
  "ApplicationContext_init example_builtins worker_enable_python_future example_environ 0
      Map.empty PNone (Some True) (Some False) =
     ([UCXContextCreate, UCXWorkerCreate None False],
      Inr \<lparr>progress_tasks = [ThreadMode 0 False], notifier_thread_q = None,
           notifier_thread = None, ctx_progress_mode = ''thread'', config = Map.empty,
           ctx_worker = \<lparr>worker_enable_delayed_submission = None,
                         worker_enable_python_future = False\<rparr>\<rparr>)"
  by (simp add: ApplicationContext_init_def check_progress_mode_def example_environ_def
      valid_progress_modes_def check_enable_delayed_submission_def
      check_enable_python_future_def start_notifier_thread_def continuous_ucx_progress_def
      loop_in_progress_tasks_def Let_def)

theorem check_enable_delayed_submission_None_witness:
  "check_enable_delayed_submission_local example_environ (Some True) = Some True \<and>
   check_enable_delayed_submission example_environ (Some True) = None \<and>
   UCXWorkerCreate None False \<in> set (fst (ApplicationContext_init example_builtins
      worker_enable_python_future example_environ 0 Map.empty PNone (Some True) (Some False))) \<and>
   snd (ApplicationContext_init example_builtins
      worker_enable_python_future example_environ 0 Map.empty PNone (Some True) (Some False)) =
     Inr \<lparr>progress_tasks = [ThreadMode 0 False], notifier_thread_q = None,
           notifier_thread = None, ctx_progress_mode = ''thread'', config = Map.empty,
           ctx_worker = \<lparr>worker_enable_delayed_submission = None,
                         worker_enable_python_future = False\<rparr>\<rparr>"
  using check_enable_delayed_submission_None [where environ = example_environ
      and eds = "Some True" and d = None and f = False and builtins = example_builtins
      and is_python_future_enabled = worker_enable_python_future and current_loop = 0
      and config_dict = Map.empty and progress_mode = PNone and epf = "Some False"
      and self = "\<lparr>progress_tasks = [ThreadMode 0 False], notifier_thread_q = None,
           notifier_thread = None, ctx_progress_mode = ''thread'', config = Map.empty,
           ctx_worker = \<lparr>worker_enable_delayed_submission = None,
                         worker_enable_python_future = False\<rparr>\<rparr>"]
  by (simp add: example_init check_enable_delayed_submission_local_def)

end
